theory Spec2Isabelle
  imports Main
begin

section \<open>Strings and numbers of the source language\<close>

text \<open>
  The source is TypeScript. A string is modelled as a \<open>char list\<close>, one \<open>char\<close> per
  code unit; the functions below are the library operations the spreadsheet helpers call,
  written out for separators and patterns of one character as the source uses them.
  Case conversion is modelled on the ASCII range, which is all that the patterns guarding
  the column helpers let through. Integral numbers are \<open>int\<close>; the source's numbers are
  doubles, so the model is exact while the values stay below \<open>2 ^ 53\<close>.
\<close>

definition charCode :: "char \<Rightarrow> int" where
  "charCode c = of_char c"

definition isLetter :: "char \<Rightarrow> bool" where
  "isLetter c = ((65 \<le> charCode c \<and> charCode c \<le> 90) \<or> (97 \<le> charCode c \<and> charCode c \<le> 122))"

definition isDigit :: "char \<Rightarrow> bool" where
  "isDigit c = (48 \<le> charCode c \<and> charCode c \<le> 57)"

definition upperChar :: "char \<Rightarrow> char" where
  "upperChar c = (if 97 \<le> charCode c \<and> charCode c \<le> 122 then char_of (charCode c - 32) else c)"

definition lowerChar :: "char \<Rightarrow> char" where
  "lowerChar c = (if 65 \<le> charCode c \<and> charCode c \<le> 90 then char_of (charCode c + 32) else c)"

definition toUpperCase :: "string \<Rightarrow> string" where
  "toUpperCase s = map upperChar s"

definition toLowerCase :: "string \<Rightarrow> string" where
  "toLowerCase s = map lowerChar s"

text \<open>\<open>s.charCodeAt(i)\<close>, read only below \<open>s.length\<close>.\<close>

definition charCodeAt :: "string \<Rightarrow> nat \<Rightarrow> int" where
  "charCodeAt s i = charCode (s ! i)"

text \<open>
  \<open>s.split(sep)\<close> for a separator of one character: every occurrence splits, and the
  result always has at least one piece (\<open>"".split(":")\<close> is \<open>[""]\<close>).
\<close>

fun js_split :: "char \<Rightarrow> string \<Rightarrow> string list" where
  "js_split sep [] = [[]]"
| "js_split sep (c # cs) =
     (let ps = js_split sep cs
      in if c = sep then [] # ps else (c # hd ps) # tl ps)"

text \<open>\<open>s.includes(c)\<close> for one character.\<close>

definition js_includes :: "string \<Rightarrow> char \<Rightarrow> bool" where
  "js_includes s c = (c \<in> set s)"

text \<open>
  \<open>s.replace(/^'|'$/g, "")\<close>: a quote at the start is removed, and then a quote at the
  end of what is left.
\<close>

definition stripQuotes :: "string \<Rightarrow> string" where
  "stripQuotes s =
     (let s1 = (case s of [] \<Rightarrow> [] | c # cs \<Rightarrow> if c = CHR 0x27 then cs else s)
      in if s1 \<noteq> [] \<and> last s1 = CHR 0x27 then butlast s1 else s1)"

text \<open>\<open>parseInt(ds, 10)\<close> on a string of decimal digits.\<close>

definition parseInt10 :: "string \<Rightarrow> int" where
  "parseInt10 ds = foldl (\<lambda>n c. n * 10 + (charCode c - 48)) 0 ds"

section \<open>Errors\<close>

text \<open>
  The source throws \<open>Error\<close> objects that differ by message only. Each constructor is one
  throw site (or the failure of an external call), named after the specification's error
  kind and carrying what the message interpolates.
\<close>

datatype error =
    InvalidFormat string  \<comment> \<open>\<open>Invalid range format: ${range}\<close>\<close>
  | NotFound string  \<comment> \<open>\<open>Sheet "${sheetName}" not found in spreadsheet\<close>\<close>
  | InvalidSpec  \<comment> \<open>\<open>Invalid group rule\<close>\<close>
  | CreateFailed  \<comment> \<open>\<open>Failed to create destination sheet\<close>\<close>
  | ServiceError string  \<comment> \<open>an exception of the spreadsheet client\<close>

section \<open>Column addresses\<close>

text \<open>
  \<open>columnLetterToIndex\<close>: the \<open>for\<close> loop over the upper-cased string, as a recursion
  on the loop counter.
\<close>

function columnLetterLoop :: "string \<Rightarrow> nat \<Rightarrow> int \<Rightarrow> int" where
  "columnLetterLoop upper i index =
     (if i < length upper
      then columnLetterLoop upper (Suc i) (index * 26 + (charCodeAt upper i - 64))
      else index)"
  by pat_completeness auto
termination
  by (relation "measure (\<lambda>(upper, i, index). length upper - i)") auto

declare columnLetterLoop.simps [simp del]

definition columnLetterToIndex :: "string \<Rightarrow> int" where
  "columnLetterToIndex letter = columnLetterLoop (toUpperCase letter) 0 0 - 1"

text \<open>
  The specification's wording of the same function: a left fold with
  \<open>index * 26 + (charCode - 'A' + 1)\<close> over the upper-cased letters, minus one.
\<close>

definition toIndex_spec :: "string \<Rightarrow> int" where
  "toIndex_spec letters =
     foldl (\<lambda>index c. index * 26 + (charCode c - charCode CHR ''A'' + 1)) 0 (toUpperCase letters) - 1"

text \<open>A column reference is a number or a string of letters (\<open>ColumnRefSchema\<close>).\<close>

datatype ColumnRef = ColNumber int | ColLetters string

fun resolveColumnIndex :: "ColumnRef \<Rightarrow> int" where
  "resolveColumnIndex (ColNumber n) = n"
| "resolveColumnIndex (ColLetters s) = columnLetterToIndex s"

text \<open>
  \<open>ColumnRefSchema\<close>: a non-negative integer, or a string matching \<open>/^[A-Z]+$/i\<close>. Without
  the unicode flag, the case-insensitive class matches exactly the ASCII letters.
\<close>

fun ColumnRefSchema :: "ColumnRef \<Rightarrow> bool" where
  "ColumnRefSchema (ColNumber n) = (0 \<le> n)"
| "ColumnRefSchema (ColLetters s) = (s \<noteq> [] \<and> list_all isLetter s)"

section \<open>Range parsing\<close>

record ParsedRange =
  r_sheetName :: string
  r_startCol :: int
  r_startRow :: int
  r_endCol :: int
  r_endRow :: int

text \<open>
  \<open>ref.match(/^([A-Z]+)(\d*)$/i)\<close>: the two captured groups, or \<open>None\<close> for \<open>null\<close>.
  The letters group is greedy, and giving a letter back can never help the digits group,
  so the match is the longest run of letters followed by digits up to the end.
\<close>

definition refMatch :: "string \<Rightarrow> (string \<times> string) option" where
  "refMatch ref =
     (let letters = takeWhile isLetter ref; digits = dropWhile isLetter ref
      in if letters \<noteq> [] \<and> list_all isDigit digits then Some (letters, digits) else None)"


text \<open>The local constants of \<open>parseA1Range\<close>, in the order the source computes them.\<close>

definition range_sheetName :: "string \<Rightarrow> string" where
  "range_sheetName rng =
     (if js_includes rng CHR ''!'' then stripQuotes (js_split CHR ''!'' rng ! 0) else [])"

definition range_rangeOnly :: "string \<Rightarrow> string" where
  "range_rangeOnly rng =
     (if js_includes rng CHR ''!'' then js_split CHR ''!'' rng ! 1 else rng)"

definition range_startRef :: "string \<Rightarrow> string" where
  "range_startRef rng = js_split CHR '':'' (range_rangeOnly rng) ! 0"

definition range_endRef :: "string \<Rightarrow> string" where
  "range_endRef rng =
     (let rangeParts = js_split CHR '':'' (range_rangeOnly rng)
      in if 1 < length rangeParts \<and> rangeParts ! 1 \<noteq> [] then rangeParts ! 1
         else range_startRef rng)"

definition parseA1Range :: "string \<Rightarrow> error + ParsedRange" where
  "parseA1Range rng =
     (case (refMatch (range_startRef rng), refMatch (range_endRef rng)) of
        (Some (startLetters, startDigits), Some (endLetters, endDigits)) \<Rightarrow>
          Inr \<lparr> r_sheetName = range_sheetName rng,
                r_startCol = columnLetterToIndex startLetters,
                r_startRow = (if startDigits \<noteq> [] then parseInt10 startDigits - 1 else 0),
                r_endCol = columnLetterToIndex endLetters + 1,
                r_endRow = (if endDigits \<noteq> [] then parseInt10 endDigits else 1000) \<rparr>
      | _ \<Rightarrow> Inl (InvalidFormat rng))"

text \<open>
  The text of a string before the first occurrence of a separator, and the text after it
  (empty when the separator does not occur).
\<close>

definition textBefore :: "char \<Rightarrow> string \<Rightarrow> string" where
  "textBefore sep s = takeWhile (\<lambda>c. c \<noteq> sep) s"

definition textAfter :: "char \<Rightarrow> string \<Rightarrow> string" where
  "textAfter sep s = drop 1 (dropWhile (\<lambda>c. c \<noteq> sep) s)"




text \<open>
  The references that \<open>parseA1Range\<close> takes, in the same words: the cell-range portion
  is the text between the first and the second \<open>!\<close>, the start reference is its text
  before the first \<open>:\<close>, and the end reference is its text between the first and the
  second \<open>:\<close>, or the start reference again when that text is missing or empty.
\<close>

definition taken_cellRange :: "string \<Rightarrow> string" where
  "taken_cellRange rng =
     (if CHR ''!'' \<in> set rng then textBefore CHR ''!'' (textAfter CHR ''!'' rng) else rng)"

definition taken_startRef :: "string \<Rightarrow> string" where
  "taken_startRef rng = textBefore CHR '':'' (taken_cellRange rng)"

definition taken_endRef :: "string \<Rightarrow> string" where
  "taken_endRef rng =
     (let second = textBefore CHR '':'' (textAfter CHR '':'' (taken_cellRange rng))
      in if second \<noteq> [] then second else taken_startRef rng)"

section \<open>Sheet metadata and the spreadsheet service\<close>

text \<open>
  Record fields carry a short prefix naming their record, followed by the field's name
  in the source; an optional property is an \<open>option\<close>. \<open>SheetProperties\<close> and \<open>Sheet\<close>
  are the parts of the client library's types that the helpers read.
\<close>

record SheetProperties =
  sp_title :: "string option"
  sp_sheetId :: "int option"

record Sheet =
  sh_properties :: "SheetProperties option"

text \<open>\<open>s.properties?.title\<close> and \<open>s.properties?.sheetId\<close>.\<close>

definition sheet_title :: "Sheet \<Rightarrow> string option" where
  "sheet_title s = Option.bind (sh_properties s) sp_title"

definition sheet_sheetId :: "Sheet \<Rightarrow> int option" where
  "sheet_sheetId s = Option.bind (sh_properties s) sp_sheetId"

text \<open>\<open>response.data.sheets || []\<close>.\<close>

definition sheetsOrEmpty :: "Sheet list option \<Rightarrow> Sheet list" where
  "sheetsOrEmpty sheets = (case sheets of None \<Rightarrow> [] | Some ss \<Rightarrow> ss)"

text \<open>
  The part of \<open>getSheetIdByName\<close> after the metadata request: the first sheet with the
  title, and the throw when \<open>!sheet?.properties?.sheetId\<close>, which holds for a missing
  sheet, a missing identifier and the identifier \<open>0\<close>.
\<close>

definition findSheetId :: "Sheet list option \<Rightarrow> string \<Rightarrow> error + int" where
  "findSheetId sheets sheetName =
     (case find (\<lambda>s. sheet_title s = Some sheetName) (sheetsOrEmpty sheets) of
        None \<Rightarrow> Inl (NotFound sheetName)
      | Some sheet \<Rightarrow>
          (case sheet_sheetId sheet of
             None \<Rightarrow> Inl (NotFound sheetName)
           | Some i \<Rightarrow> if i = 0 then Inl (NotFound sheetName) else Inr i))"

text \<open>\<open>spreadsheet.data.sheets?.[0]?.properties?.sheetId || 0\<close>.\<close>

definition firstSheetId :: "Sheet list option \<Rightarrow> int" where
  "firstSheetId sheets =
     (case sheetsOrEmpty sheets of
        [] \<Rightarrow> 0
      | sheet # _ \<Rightarrow> (case sheet_sheetId sheet of None \<Rightarrow> 0 | Some i \<Rightarrow> i))"

section \<open>Pivot table input and output\<close>

text \<open>
  Numbers that the compiler only carries through (histogram bounds, members of manual
  groups, operands of conditions) have the type parameter \<open>'n\<close>; \<open>String(v)\<close> on such a
  number is a parameter of the filter compiler.
\<close>

datatype SortOrder = ASCENDING | DESCENDING

datatype ValueLayout = HORIZONTAL | VERTICAL

datatype SummarizeFunction =
    Fn_SUM | Fn_COUNT | Fn_COUNTA | Fn_COUNTUNIQUE | Fn_AVERAGE | Fn_MAX | Fn_MIN
  | Fn_MEDIAN | Fn_PRODUCT | Fn_STDEV | Fn_STDEVP | Fn_VAR | Fn_VARP | Fn_CUSTOM

datatype CalculatedDisplayType =
    PERCENT_OF_ROW_TOTAL | PERCENT_OF_COLUMN_TOTAL | PERCENT_OF_GRAND_TOTAL

datatype DateTimeRuleType =
    SECOND | MINUTE | HOUR | HOUR_MINUTE | HOUR_MINUTE_AMPM | DAY_OF_WEEK | DAY_OF_MONTH
  | DAY_OF_YEAR | DAY_MONTH | MONTH | QUARTER | YEAR | YEAR_MONTH | YEAR_QUARTER
  | YEAR_MONTH_DAY

datatype ConditionType =
    NUMBER_GREATER | NUMBER_GREATER_THAN_EQ | NUMBER_LESS | NUMBER_LESS_THAN_EQ
  | NUMBER_EQ | NUMBER_NOT_EQ | NUMBER_BETWEEN | NUMBER_NOT_BETWEEN
  | TEXT_CONTAINS | TEXT_NOT_CONTAINS | TEXT_STARTS_WITH | TEXT_ENDS_WITH
  | TEXT_EQ | TEXT_NOT_EQ | DATE_EQ | DATE_BEFORE | DATE_AFTER
  | DATE_ON_OR_BEFORE | DATE_ON_OR_AFTER | DATE_BETWEEN | DATE_NOT_BETWEEN
  | DATE_IS_VALID | BLANK | NOT_BLANK

datatype 'n StringOrNumber = StringItem string | NumberItem 'n

subsection \<open>Input (the types inferred from the schemas)\<close>

record DateTimeRuleInput =
  dt_type :: DateTimeRuleType

record 'n HistogramRuleInput =
  h_interval :: 'n
  h_start :: "'n option"
  h_end :: "'n option"

record 'n ManualRuleGroupInput =
  mg_group_name :: string
  mg_items :: "'n StringOrNumber list"

record 'n ManualRuleInput =
  m_groups :: "'n ManualRuleGroupInput list"

text \<open>A group rule is an object read by key: each field is \<open>Some\<close> when the key is in it.\<close>

record 'n GroupRuleInput =
  gr_date_time :: "DateTimeRuleInput option"
  gr_histogram :: "'n HistogramRuleInput option"
  gr_manual :: "'n ManualRuleInput option"

record SortByValueInput =
  sbv_value_index :: int

record 'n PivotGroupInput =
  g_source_column :: ColumnRef
  g_label :: "string option"
  g_show_totals :: bool
  g_sort_order :: "SortOrder option"
  g_sort_by_value :: "SortByValueInput option"
  g_group_rule :: "'n GroupRuleInput option"
  g_group_limit :: "int option"

record PivotValueInput =
  v_source_column :: "ColumnRef option"
  v_formula :: "string option"
  v_summarize_function :: SummarizeFunction
  v_name :: "string option"
  v_calculated_display_type :: "CalculatedDisplayType option"

record 'n FilterConditionInput =
  fc_type :: ConditionType
  fc_values :: "'n StringOrNumber list option"

record 'n PivotFilterInput =
  f_source_column :: ColumnRef
  f_visible_values :: "string list option"
  f_condition :: "'n FilterConditionInput option"

record 'n CreatePivotTableInput =
  p_spreadsheet_id :: string
  p_source_range :: string
  p_destination_sheet_id :: "int option"
  p_destination_sheet_name :: string
  p_rows :: "'n PivotGroupInput list option"
  p_columns :: "'n PivotGroupInput list option"
  p_values :: "PivotValueInput list"
  p_filters :: "'n PivotFilterInput list option"
  p_value_layout :: ValueLayout

subsection \<open>Output (the parts of the client library's types that are written)\<close>

datatype 'n ExtendedValue = StringValue string | NumberValue 'n

record 'n ManualRuleGroup =
  mrg_groupName :: "'n ExtendedValue"
  mrg_items :: "'n ExtendedValue list"

datatype 'n PivotGroupRule =
    DateTimeRule DateTimeRuleType
  | HistogramRule 'n "'n option" "'n option"  \<comment> \<open>interval, start, end\<close>
  | ManualRule "'n ManualRuleGroup list"

record ValueBucket =
  vb_valuesIndex :: "int option"

record 'n PivotGroup =
  pg_sourceColumnOffset :: int
  pg_showTotals :: bool
  pg_label :: "string option"
  pg_sortOrder :: "SortOrder option"
  pg_valueBucket :: "ValueBucket option"
  pg_groupRule :: "'n PivotGroupRule option"
  pg_groupLimit :: "int option"  \<comment> \<open>\<open>{ countLimit: n }\<close>\<close>

record PivotValue =
  pv_summarizeFunction :: SummarizeFunction
  pv_sourceColumnOffset :: "int option"
  pv_formula :: "string option"
  pv_name :: "string option"
  pv_calculatedDisplayType :: "CalculatedDisplayType option"

record ConditionValue =
  cv_userEnteredValue :: string

record BooleanCondition =
  bc_type :: ConditionType
  bc_values :: "ConditionValue list option"

record FilterCriteria =
  fcr_visibleValues :: "string list option"
  fcr_condition :: "BooleanCondition option"

record PivotFilterSpec =
  fs_columnOffsetIndex :: int
  fs_filterCriteria :: "FilterCriteria option"

record GridRange =
  src_sheetId :: int
  src_startRowIndex :: int
  src_startColumnIndex :: int
  src_endRowIndex :: int
  src_endColumnIndex :: int

record 'n PivotTable =
  pt_source :: GridRange
  pt_rows :: "'n PivotGroup list option"
  pt_columns :: "'n PivotGroup list option"
  pt_values :: "PivotValue list"
  pt_valueLayout :: ValueLayout
  pt_filterSpecs :: "PivotFilterSpec list option"

record PivotOutput =
  o_spreadsheetId :: string
  o_pivotTableSheetId :: int
  o_pivotTableSheetName :: string
  o_sourceRange :: string
  o_rowGroups :: nat
  o_columnGroups :: nat
  o_valueAggregations :: nat
  o_filters :: nat

section \<open>The compilers of groups, values and filters\<close>

text \<open>What an \<open>if\<close> of the source tests on an optional string or number.\<close>

definition truthyString :: "string option \<Rightarrow> bool" where
  "truthyString s = (case s of None \<Rightarrow> False | Some t \<Rightarrow> t \<noteq> [])"

definition truthyNumber :: "int option \<Rightarrow> bool" where
  "truthyNumber n = (case n of None \<Rightarrow> False | Some k \<Rightarrow> k \<noteq> 0)"

fun extendedValue :: "'n StringOrNumber \<Rightarrow> 'n ExtendedValue" where
  "extendedValue (StringItem s) = StringValue s"
| "extendedValue (NumberItem n) = NumberValue n"

definition buildGroupRule :: "'n GroupRuleInput \<Rightarrow> error + 'n PivotGroupRule" where
  "buildGroupRule rule =
     (case gr_date_time rule of
        Some dt \<Rightarrow> Inr (DateTimeRule (dt_type dt))
      | None \<Rightarrow>
     (case gr_histogram rule of
        Some h \<Rightarrow> Inr (HistogramRule (h_interval h) (h_start h) (h_end h))
      | None \<Rightarrow>
     (case gr_manual rule of
        Some m \<Rightarrow>
          Inr (ManualRule
            (map (\<lambda>g. \<lparr> mrg_groupName = StringValue (mg_group_name g),
                         mrg_items = map extendedValue (mg_items g) \<rparr>)
               (m_groups m)))
      | None \<Rightarrow> Inl InvalidSpec)))"

text \<open>
  \<open>buildPivotGroup\<close>: the object is created with two fields and the others are assigned
  one after the other; each \<open>let\<close> below is one \<open>if\<close> of the source, in its order.
\<close>

definition buildPivotGroup :: "'n PivotGroupInput \<Rightarrow> error + 'n PivotGroup" where
  "buildPivotGroup grp =
     (let pivotGroup0 =
            \<lparr> pg_sourceColumnOffset = resolveColumnIndex (g_source_column grp),
              pg_showTotals = g_show_totals grp,
              pg_label = None, pg_sortOrder = None, pg_valueBucket = None,
              pg_groupRule = None, pg_groupLimit = None \<rparr>;
          pivotGroup1 =
            (if truthyString (g_label grp)
             then pivotGroup0 \<lparr> pg_label := g_label grp \<rparr> else pivotGroup0);
          pivotGroup2 =
            (if g_sort_order grp \<noteq> None
             then pivotGroup1 \<lparr> pg_sortOrder := g_sort_order grp \<rparr> else pivotGroup1);
          pivotGroup3 =
            (case g_sort_by_value grp of
               Some sbv \<Rightarrow>
                 pivotGroup2 \<lparr> pg_valueBucket :=
                   Some \<lparr> vb_valuesIndex = Some (sbv_value_index sbv) \<rparr> \<rparr>
             | None \<Rightarrow>
                 if g_sort_order grp \<noteq> None
                 then pivotGroup2 \<lparr> pg_valueBucket := Some \<lparr> vb_valuesIndex = None \<rparr> \<rparr>
                 else pivotGroup2)
      in case (case g_group_rule grp of
                 None \<Rightarrow> Inr pivotGroup3
               | Some rule \<Rightarrow>
                   (case buildGroupRule rule of
                      Inl e \<Rightarrow> Inl e
                    | Inr r \<Rightarrow> Inr (pivotGroup3 \<lparr> pg_groupRule := Some r \<rparr>))) of
           Inl e \<Rightarrow> Inl e
         | Inr pivotGroup4 \<Rightarrow>
             Inr (if truthyNumber (g_group_limit grp)
                  then pivotGroup4 \<lparr> pg_groupLimit := g_group_limit grp \<rparr>
                  else pivotGroup4))"

definition buildPivotValue :: "PivotValueInput \<Rightarrow> PivotValue" where
  "buildPivotValue val =
     (let pivotValue0 =
            \<lparr> pv_summarizeFunction = v_summarize_function val,
              pv_sourceColumnOffset = None, pv_formula = None, pv_name = None,
              pv_calculatedDisplayType = None \<rparr>;
          pivotValue1 =
            (case v_source_column val of
               Some column \<Rightarrow>
                 pivotValue0 \<lparr> pv_sourceColumnOffset := Some (resolveColumnIndex column) \<rparr>
             | None \<Rightarrow>
                 if truthyString (v_formula val)
                 then pivotValue0 \<lparr> pv_formula := v_formula val \<rparr> else pivotValue0);
          pivotValue2 =
            (if truthyString (v_name val)
             then pivotValue1 \<lparr> pv_name := v_name val \<rparr> else pivotValue1)
      in if v_calculated_display_type val \<noteq> None
         then pivotValue2 \<lparr> pv_calculatedDisplayType := v_calculated_display_type val \<rparr>
         else pivotValue2)"

text \<open>
  The two refinements of \<open>PivotValueSchema\<close>, which the tool layer checks before the
  handler runs: one of the two is there, and not both.
\<close>

definition PivotValueSchema_refine :: "PivotValueInput \<Rightarrow> bool" where
  "PivotValueSchema_refine data =
     ((v_source_column data \<noteq> None \<or> v_formula data \<noteq> None) \<and>
      \<not> (v_source_column data \<noteq> None \<and> v_formula data \<noteq> None))"

fun String_of :: "('n \<Rightarrow> string) \<Rightarrow> 'n StringOrNumber \<Rightarrow> string" where
  "String_of num (StringItem s) = s"
| "String_of num (NumberItem n) = num n"

text \<open>The function that \<open>buildPivotFilters\<close> maps over the filters.\<close>

definition buildPivotFilter :: "('n \<Rightarrow> string) \<Rightarrow> 'n PivotFilterInput \<Rightarrow> PivotFilterSpec" where
  "buildPivotFilter num flt =
     (let spec = \<lparr> fs_columnOffsetIndex = resolveColumnIndex (f_source_column flt),
                   fs_filterCriteria =
                     Some \<lparr> fcr_visibleValues = None, fcr_condition = None \<rparr> \<rparr>
      in case f_visible_values flt of
           Some vs \<Rightarrow>
             spec \<lparr> fs_filterCriteria :=
               Some \<lparr> fcr_visibleValues = Some vs, fcr_condition = None \<rparr> \<rparr>
         | None \<Rightarrow>
             (case f_condition flt of
                Some cond \<Rightarrow>
                  spec \<lparr> fs_filterCriteria :=
                    Some \<lparr> fcr_visibleValues = None,
                           fcr_condition = Some
                             \<lparr> bc_type = fc_type cond,
                               bc_values = map_option
                                 (map (\<lambda>v. \<lparr> cv_userEnteredValue = String_of num v \<rparr>))
                                 (fc_values cond) \<rparr> \<rparr> \<rparr>
              | None \<Rightarrow> spec))"

definition buildPivotFilters ::
  "('n \<Rightarrow> string) \<Rightarrow> 'n PivotFilterInput list \<Rightarrow> PivotFilterSpec list" where
  "buildPivotFilters num filters = map (buildPivotFilter num) filters"

section \<open>The handler of \<open>sheets_create_pivot_table\<close>\<close>

text \<open>
  The spreadsheet service is outside the program. Its answers are parameters of the
  model, and every request the handler sends is appended to a log, which is the state
  the handler threads: a claim about what was sent, and in which order, is a claim about
  the log. \<open>GetSpreadsheet\<close> reads; \<open>AddSheet\<close> and \<open>UpdateCells\<close> are the two
  \<open>batchUpdate\<close> requests, which change the spreadsheet.
\<close>

datatype 'n call =
    GetSpreadsheet string  \<comment> \<open>spreadsheet id\<close>
  | AddSheet string string  \<comment> \<open>spreadsheet id, title\<close>
  | UpdateCells string int "'n PivotTable"  \<comment> \<open>spreadsheet id, start sheet id, pivot table\<close>

fun mutating :: "'n call \<Rightarrow> bool" where
  "mutating (GetSpreadsheet _) = False"
| "mutating (AddSheet _ _) = True"
| "mutating (UpdateCells _ _ _) = True"

record 'n Service =
  sv_getSheetsClient :: "error option"
    \<comment> \<open>\<open>getSheetsClient()\<close>: \<open>None\<close> when a client is returned\<close>
  sv_get :: "string \<Rightarrow> error + Sheet list option"
    \<comment> \<open>\<open>spreadsheets.get\<close> with \<open>fields: "sheets.properties"\<close>: \<open>response.data.sheets\<close>\<close>
  sv_addSheet :: "string \<Rightarrow> string \<Rightarrow> error + SheetProperties option"
    \<comment> \<open>\<open>response.data.replies?.[0]?.addSheet?.properties\<close>\<close>
  sv_updateCells :: "string \<Rightarrow> int \<Rightarrow> 'n PivotTable \<Rightarrow> error option"

definition getSheetIdByName ::
  "'n Service \<Rightarrow> string \<Rightarrow> string \<Rightarrow> 'n call list \<Rightarrow> (error + int) \<times> 'n call list" where
  "getSheetIdByName sv spreadsheetId sheetName log =
     (let log' = log @ [GetSpreadsheet spreadsheetId]
      in case sv_get sv spreadsheetId of
           Inl e \<Rightarrow> (Inl e, log')
         | Inr sheets \<Rightarrow> (findSheetId sheets sheetName, log'))"

text \<open>The step "get the source sheet ID" of the handler.\<close>

definition resolveSourceSheetId ::
  "'n Service \<Rightarrow> string \<Rightarrow> string \<Rightarrow> 'n call list \<Rightarrow> (error + int) \<times> 'n call list" where
  "resolveSourceSheetId sv spreadsheetId sheetName log =
     (if sheetName \<noteq> [] then getSheetIdByName sv spreadsheetId sheetName log
      else
        (let log' = log @ [GetSpreadsheet spreadsheetId]
         in case sv_get sv spreadsheetId of
              Inl e \<Rightarrow> (Inl e, log')
            | Inr sheets \<Rightarrow> (Inr (firstSheetId sheets), log')))"

text \<open>
  The step "determine destination sheet ID": the identifier and the name of the
  destination. A sheet is added only when the input names no destination.
\<close>

definition resolveDestination ::
  "'n Service \<Rightarrow> 'n CreatePivotTableInput \<Rightarrow> 'n call list \<Rightarrow>
     (error + int \<times> string) \<times> 'n call list" where
  "resolveDestination sv params log =
     (case p_destination_sheet_id params of
        Some destinationSheetId \<Rightarrow>
          (Inr (destinationSheetId, p_destination_sheet_name params), log)
      | None \<Rightarrow>
          (let log' = log @ [AddSheet (p_spreadsheet_id params) (p_destination_sheet_name params)]
           in case sv_addSheet sv (p_spreadsheet_id params) (p_destination_sheet_name params) of
                Inl e \<Rightarrow> (Inl e, log')
              | Inr reply \<Rightarrow>
                  (let newSheetId = Option.bind reply sp_sheetId;
                       destinationSheetName =
                         (if truthyString (Option.bind reply sp_title)
                          then the (Option.bind reply sp_title)
                          else p_destination_sheet_name params)
                   in case newSheetId of
                        None \<Rightarrow> (Inl CreateFailed, log')
                      | Some i \<Rightarrow> (Inr (i, destinationSheetName), log'))))"

text \<open>\<open>xs.map(f)\<close> for an \<open>f\<close> that can throw: the first exception ends the map.\<close>

fun mapThrowing :: "('a \<Rightarrow> error + 'b) \<Rightarrow> 'a list \<Rightarrow> error + 'b list" where
  "mapThrowing f [] = Inr []"
| "mapThrowing f (x # xs) =
     (case f x of
        Inl e \<Rightarrow> Inl e
      | Inr y \<Rightarrow> (case mapThrowing f xs of Inl e \<Rightarrow> Inl e | Inr ys \<Rightarrow> Inr (y # ys)))"

definition nonEmptyOrUndefined :: "'a list \<Rightarrow> 'a list option" where
  "nonEmptyOrUndefined xs = (if length xs > 0 then Some xs else None)"

text \<open>
  The steps "build pivot groups" and "build the pivot table object": rows, columns,
  values and filters are compiled in this order, and then the table is put together.
\<close>

definition compilePivotTable ::
  "('n \<Rightarrow> string) \<Rightarrow> 'n CreatePivotTableInput \<Rightarrow> ParsedRange \<Rightarrow> int \<Rightarrow> error + 'n PivotTable" where
  "compilePivotTable num params parsedRange sourceSheetId =
     (case mapThrowing buildPivotGroup (case p_rows params of None \<Rightarrow> [] | Some gs \<Rightarrow> gs) of
        Inl e \<Rightarrow> Inl e
      | Inr pivotRows \<Rightarrow>
     (case mapThrowing buildPivotGroup (case p_columns params of None \<Rightarrow> [] | Some gs \<Rightarrow> gs) of
        Inl e \<Rightarrow> Inl e
      | Inr pivotColumns \<Rightarrow>
          (let pivotValues = map buildPivotValue (p_values params);
               pivotFilters = map_option (buildPivotFilters num) (p_filters params)
           in Inr \<lparr> pt_source =
                      \<lparr> src_sheetId = sourceSheetId,
                        src_startRowIndex = r_startRow parsedRange,
                        src_startColumnIndex = r_startCol parsedRange,
                        src_endRowIndex = r_endRow parsedRange,
                        src_endColumnIndex = r_endCol parsedRange \<rparr>,
                    pt_rows = nonEmptyOrUndefined pivotRows,
                    pt_columns = nonEmptyOrUndefined pivotColumns,
                    pt_values = pivotValues,
                    pt_valueLayout = p_value_layout params,
                    pt_filterSpecs = pivotFilters \<rparr>)))"

text \<open>
  The handler. \<open>Inl e\<close> is the answer of the \<open>catch\<close> block (the text that
  \<open>handleGoogleError\<close> makes of \<open>e\<close>), \<open>Inr output\<close> the structured content of the
  answer; the second component is the log of the requests sent.
\<close>

definition sheets_create_pivot_table ::
  "('n \<Rightarrow> string) \<Rightarrow> 'n Service \<Rightarrow> 'n CreatePivotTableInput \<Rightarrow>
     (error + PivotOutput) \<times> 'n call list" where
  "sheets_create_pivot_table num sv params =
     (case sv_getSheetsClient sv of
        Some e \<Rightarrow> (Inl e, [])
      | None \<Rightarrow>
     (case parseA1Range (p_source_range params) of
        Inl e \<Rightarrow> (Inl e, [])
      | Inr parsedRange \<Rightarrow>
     (case resolveSourceSheetId sv (p_spreadsheet_id params) (r_sheetName parsedRange) [] of
        (Inl e, log1) \<Rightarrow> (Inl e, log1)
      | (Inr sourceSheetId, log1) \<Rightarrow>
     (case resolveDestination sv params log1 of
        (Inl e, log2) \<Rightarrow> (Inl e, log2)
      | (Inr (destinationSheetId, destinationSheetName), log2) \<Rightarrow>
     (case compilePivotTable num params parsedRange sourceSheetId of
        Inl e \<Rightarrow> (Inl e, log2)
      | Inr pivotTable \<Rightarrow>
          (let log3 = log2 @ [UpdateCells (p_spreadsheet_id params) destinationSheetId pivotTable]
           in case sv_updateCells sv (p_spreadsheet_id params) destinationSheetId pivotTable of
                Some e \<Rightarrow> (Inl e, log3)
              | None \<Rightarrow>
                  (Inr \<lparr> o_spreadsheetId = p_spreadsheet_id params,
                         o_pivotTableSheetId = destinationSheetId,
                         o_pivotTableSheetName = destinationSheetName,
                         o_sourceRange = p_source_range params,
                         o_rowGroups = (case pt_rows pivotTable of None \<Rightarrow> 0 | Some gs \<Rightarrow> length gs),
                         o_columnGroups = (case pt_columns pivotTable of None \<Rightarrow> 0 | Some gs \<Rightarrow> length gs),
                         o_valueAggregations = length (pt_values pivotTable),
                         o_filters = (case p_filters params of None \<Rightarrow> 0 | Some fs \<Rightarrow> length fs) \<rparr>,
                   log3)))))))"

text \<open>The end-to-end example of the specification, with the defaults of the schema.\<close>

definition salesSpec :: "string \<Rightarrow> int option \<Rightarrow> 'n CreatePivotTableInput" where
  "salesSpec spreadsheetId destination =
     \<lparr> p_spreadsheet_id = spreadsheetId,
       p_source_range = ''Sales!A1:E100'',
       p_destination_sheet_id = destination,
       p_destination_sheet_name = ''Pivot Table'',
       p_rows = Some [\<lparr> g_source_column = ColLetters ''A'', g_label = None,
                        g_show_totals = True, g_sort_order = None, g_sort_by_value = None,
                        g_group_rule = None, g_group_limit = None \<rparr>],
       p_columns = None,
       p_values = [\<lparr> v_source_column = Some (ColLetters ''E''), v_formula = None,
                      v_summarize_function = Fn_SUM, v_name = None,
                      v_calculated_display_type = None \<rparr>],
       p_filters = None,
       p_value_layout = HORIZONTAL \<rparr>"

text \<open>
  Stand-ins for the service in the concrete instances below: every request succeeds,
  the metadata request answers the given sheets, and a sheet that is added gets the
  identifier \<open>7\<close> and the requested title.
\<close>

definition fakeService :: "Sheet list \<Rightarrow> 'n Service" where
  "fakeService sheets =
     \<lparr> sv_getSheetsClient = None,
       sv_get = (\<lambda>spreadsheetId. Inr (Some sheets)),
       sv_addSheet = (\<lambda>spreadsheetId title. Inr (Some \<lparr> sp_title = Some title, sp_sheetId = Some 7 \<rparr>)),
       sv_updateCells = (\<lambda>spreadsheetId sheetId pivotTable. None) \<rparr>"

definition sheetNamed :: "string \<Rightarrow> int \<Rightarrow> Sheet" where
  "sheetNamed title i = \<lparr> sh_properties = Some \<lparr> sp_title = Some title, sp_sheetId = Some i \<rparr> \<rparr>"

section \<open>Auxiliary facts\<close>

subsection \<open>Characters\<close>

lemma charCode_range: "0 \<le> charCode c \<and> charCode c < 256"
proof -
  have "(of_char c :: nat) < 256" by (rule nat_of_char_less_256)
  then have "int (of_char c) < 256" by simp
  moreover have "(of_char c :: int) = int (of_char c)" by (simp only: of_nat_of_char)
  ultimately show ?thesis by (simp add: charCode_def)
qed

lemma char_of_charCode: "char_of (charCode c) = c"
  by (simp add: charCode_def)

lemma charCode_char_of: "0 \<le> n \<Longrightarrow> n < 256 \<Longrightarrow> charCode (char_of n) = n"
  by (simp add: charCode_def)

lemma upperChar_lowerChar: "isLetter c \<Longrightarrow> upperChar (lowerChar c) = upperChar c"
  using charCode_range [of c]
  by (auto simp: isLetter_def upperChar_def lowerChar_def charCode_char_of char_of_charCode)

lemma upperChar_idem: "upperChar (upperChar c) = upperChar c"
  using charCode_range [of c]
  by (auto simp: upperChar_def charCode_char_of)

lemma digit_not_letter: "isDigit c \<Longrightarrow> \<not> isLetter c"
  by (auto simp: isDigit_def isLetter_def)

lemma letter_not_separator: "isLetter c \<Longrightarrow> c \<noteq> CHR ''!'' \<and> c \<noteq> CHR '':''"
  by (auto simp: isLetter_def charCode_def)

subsection \<open>The loop of \<open>columnLetterToIndex\<close> is a left fold\<close>

lemma columnLetterLoop_foldl:
  "columnLetterLoop u i idx = foldl (\<lambda>index c. index * 26 + (charCode c - 64)) idx (drop i u)"
proof (induction u i idx rule: columnLetterLoop.induct)
  case (1 upper i index)
  show ?case
  proof (cases "i < length upper")
    case True
    then have d: "drop i upper = upper ! i # drop (Suc i) upper"
      by (simp add: Cons_nth_drop_Suc)
    from True 1 show ?thesis
      by (subst columnLetterLoop.simps) (simp add: d charCodeAt_def)
  next
    case False
    then show ?thesis by (subst columnLetterLoop.simps) simp
  qed
qed

lemma columnLetterToIndex_toIndex_spec: "columnLetterToIndex s = toIndex_spec s"
  by (simp add: columnLetterToIndex_def toIndex_spec_def columnLetterLoop_foldl charCode_def)

lemma columnLetterToIndex_cong:
  "toUpperCase s = toUpperCase t \<Longrightarrow> columnLetterToIndex s = columnLetterToIndex t"
  by (simp add: columnLetterToIndex_def)

subsection \<open>Splitting and matching\<close>

lemma js_split_nonempty: "js_split sep s \<noteq> []"
  by (induction s) (simp_all add: Let_def)

lemma refMatch_Some_iff:
  "refMatch ref = Some (l, d) \<longleftrightarrow>
     ref = l @ d \<and> l \<noteq> [] \<and> list_all isLetter l \<and> list_all isDigit d"
proof
  assume "refMatch ref = Some (l, d)"
  then have l: "l = takeWhile isLetter ref" and d: "d = dropWhile isLetter ref"
    and ne: "l \<noteq> []" and dg: "list_all isDigit d"
    by (auto simp: refMatch_def Let_def split: if_splits)
  have "list_all isLetter l" unfolding l list_all_iff by (auto dest: set_takeWhileD)
  with l d ne dg show "ref = l @ d \<and> l \<noteq> [] \<and> list_all isLetter l \<and> list_all isDigit d"
    by simp
next
  assume a: "ref = l @ d \<and> l \<noteq> [] \<and> list_all isLetter l \<and> list_all isDigit d"
  then have al: "\<forall>x\<in>set l. isLetter x" by (simp add: list_all_iff)
  from a have "takeWhile isLetter d = []"
    by (cases d) (auto dest: digit_not_letter)
  with al a have t: "takeWhile isLetter ref = l" by (simp add: takeWhile_append2)
  from a have "dropWhile isLetter d = d"
    by (cases d) (auto dest: digit_not_letter)
  with al a have dr: "dropWhile isLetter ref = d" by (simp add: dropWhile_append2)
  from a t dr show "refMatch ref = Some (l, d)"
    by (simp add: refMatch_def Let_def)
qed


lemma refMatch_letters:
  "a \<noteq> [] \<Longrightarrow> list_all isLetter a \<Longrightarrow> refMatch a = Some (a, [])"
  using refMatch_Some_iff [of a a "[]"] by simp

subsection \<open>What the parser takes from a range string\<close>

lemma js_split_unfold:
  "js_split sep s =
     textBefore sep s # (if sep \<in> set s then js_split sep (textAfter sep s) else [])"
  by (induction s) (auto simp: textBefore_def textAfter_def Let_def)

lemma js_split_first: "js_split sep s ! 0 = textBefore sep s"
  by (subst js_split_unfold) simp

lemma js_split_second:
  "sep \<in> set s \<Longrightarrow> js_split sep s ! Suc 0 = textBefore sep (textAfter sep s)"
  by (subst js_split_unfold) (simp add: js_split_first)

lemma js_split_length: "Suc 0 < length (js_split sep s) \<longleftrightarrow> sep \<in> set s"
  using js_split_nonempty [of sep "textAfter sep s"]
  by (subst js_split_unfold) auto

lemma textAfter_absent: "sep \<notin> set s \<Longrightarrow> textAfter sep s = []"
  by (induction s) (auto simp: textAfter_def)

lemma textBefore_absent: "sep \<notin> set s \<Longrightarrow> textBefore sep s = s"
  by (induction s) (auto simp: textBefore_def)

lemma textBefore_append: "sep \<notin> set x \<Longrightarrow> textBefore sep (x @ sep # y) = x"
  by (induction x) (auto simp: textBefore_def)

lemma textAfter_append: "sep \<notin> set x \<Longrightarrow> textAfter sep (x @ sep # y) = y"
  by (induction x) (auto simp: textAfter_def)

lemma range_rangeOnly_taken: "range_rangeOnly rng = taken_cellRange rng"
  by (simp add: range_rangeOnly_def taken_cellRange_def js_includes_def js_split_second)

lemma range_startRef_taken: "range_startRef rng = taken_startRef rng"
  by (simp add: range_startRef_def taken_startRef_def range_rangeOnly_taken js_split_first)

lemma range_endRef_taken: "range_endRef rng = taken_endRef rng"
proof (cases "CHR '':'' \<in> set (taken_cellRange rng)")
  case True
  then show ?thesis
    by (simp add: range_endRef_def taken_endRef_def range_rangeOnly_taken range_startRef_taken
        js_split_length js_split_second Let_def)
next
  case False
  then show ?thesis
    by (simp add: range_endRef_def taken_endRef_def range_rangeOnly_taken range_startRef_taken
        js_split_length textAfter_absent textBefore_def Let_def)
qed

lemma range_sheetName_text:
  "range_sheetName rng =
     (if CHR ''!'' \<in> set rng then stripQuotes (textBefore CHR ''!'' rng) else [])"
  by (simp add: range_sheetName_def js_includes_def js_split_first)

lemma parseA1Range_letters_only:
  assumes "range_sheetName rng = sn" "range_startRef rng = a" "range_endRef rng = b"
    and "a \<noteq> []" "list_all isLetter a" "b \<noteq> []" "list_all isLetter b"
  shows "parseA1Range rng =
           Inr \<lparr> r_sheetName = sn, r_startCol = columnLetterToIndex a, r_startRow = 0,
                 r_endCol = columnLetterToIndex b + 1, r_endRow = 1000 \<rparr>"
  using assms by (simp add: parseA1Range_def refMatch_letters)

subsection \<open>The compilers\<close>

lemma buildPivotValue_fields:
  "pv_sourceColumnOffset (buildPivotValue val) = map_option resolveColumnIndex (v_source_column val)"
  "pv_formula (buildPivotValue val) =
     (if v_source_column val = None \<and> truthyString (v_formula val) then v_formula val else None)"
  "pv_summarizeFunction (buildPivotValue val) = v_summarize_function val"
  by (simp_all add: buildPivotValue_def Let_def split: option.splits)

lemma buildGroupRule_tagged:
  "gr_date_time r \<noteq> None \<or> gr_histogram r \<noteq> None \<or> gr_manual r \<noteq> None \<Longrightarrow>
   \<exists>gr. buildGroupRule r = Inr gr"
  by (auto simp: buildGroupRule_def split: option.splits)

lemma buildPivotGroup_cases:
  "(\<exists>r. g_group_rule grp = Some r \<and> buildGroupRule r = Inl InvalidSpec \<and>
        buildPivotGroup grp = Inl InvalidSpec) \<or>
   (\<exists>pg. buildPivotGroup grp = Inr pg \<and>
      pg_sourceColumnOffset pg = resolveColumnIndex (g_source_column grp) \<and>
      pg_showTotals pg = g_show_totals grp \<and>
      pg_sortOrder pg = g_sort_order grp \<and>
      pg_valueBucket pg =
        (case g_sort_by_value grp of
           Some sbv \<Rightarrow> Some \<lparr> vb_valuesIndex = Some (sbv_value_index sbv) \<rparr>
         | None \<Rightarrow> if g_sort_order grp \<noteq> None then Some \<lparr> vb_valuesIndex = None \<rparr> else None))"
proof (cases "g_group_rule grp")
  case None
  then show ?thesis
    by (simp add: buildPivotGroup_def Let_def split: option.splits)
next
  case (Some r)
  show ?thesis
  proof (cases "buildGroupRule r")
    case (Inl e)
    then have "e = InvalidSpec"
      by (auto simp: buildGroupRule_def split: option.splits)
    with Inl Some show ?thesis
      by (simp add: buildPivotGroup_def Let_def)
  next
    case (Inr gr)
    with Some show ?thesis
      by (simp add: buildPivotGroup_def Let_def split: option.splits)
  qed
qed

lemma buildPivotFilter_criteria:
  "fs_filterCriteria (buildPivotFilter num f) =
     (case f_visible_values f of
        Some vs \<Rightarrow> Some \<lparr> fcr_visibleValues = Some vs, fcr_condition = None \<rparr>
      | None \<Rightarrow>
          (case f_condition f of
             Some c \<Rightarrow>
               Some \<lparr> fcr_visibleValues = None,
                      fcr_condition = Some
                        \<lparr> bc_type = fc_type c,
                          bc_values = map_option
                            (map (\<lambda>v. \<lparr> cv_userEnteredValue = String_of num v \<rparr>))
                            (fc_values c) \<rparr> \<rparr>
           | None \<Rightarrow> Some \<lparr> fcr_visibleValues = None, fcr_condition = None \<rparr>))"
  by (simp add: buildPivotFilter_def Let_def split: option.splits)

subsection \<open>Resolution and the example\<close>

lemma find_None_titles:
  "(\<forall>s\<in>set ss. sheet_title s \<noteq> Some n) \<Longrightarrow> find (\<lambda>s. sheet_title s = Some n) ss = None"
  by (simp add: find_None_iff)

lemma resolveSourceSheetId_log:
  "snd (resolveSourceSheetId sv spreadsheetId sheetName log) = log @ [GetSpreadsheet spreadsheetId]"
  by (simp add: resolveSourceSheetId_def getSheetIdByName_def Let_def split: sum.splits)

text \<open>
  A sheet whose identifier is \<open>0\<close> is reported as not found by \<open>findSheetId\<close>, although
  the sheet with the title is there.
\<close>

lemma findSheetId_identifier_zero:
  "findSheetId (Some [sheetNamed ''Sheet1'' 0]) ''Sheet1'' = Inl (NotFound ''Sheet1'')"
  by code_simp

lemma parseA1Range_sales:
  "parseA1Range ''Sales!A1:E100'' =
     Inr \<lparr> r_sheetName = ''Sales'', r_startCol = 0, r_startRow = 0, r_endCol = 5, r_endRow = 100 \<rparr>"
  by code_simp

lemma columnLetterToIndex_A_E: "columnLetterToIndex ''A'' = 0" "columnLetterToIndex ''E'' = 4"
  by code_simp+

lemma compilePivotTable_sales:
  "compilePivotTable num (salesSpec spreadsheetId destination)
     \<lparr> r_sheetName = ''Sales'', r_startCol = 0, r_startRow = 0, r_endCol = 5, r_endRow = 100 \<rparr> 3 =
   Inr \<lparr> pt_source = \<lparr> src_sheetId = 3, src_startRowIndex = 0, src_startColumnIndex = 0,
                        src_endRowIndex = 100, src_endColumnIndex = 5 \<rparr>,
         pt_rows = Some [\<lparr> pg_sourceColumnOffset = 0, pg_showTotals = True, pg_label = None,
                          pg_sortOrder = None, pg_valueBucket = None, pg_groupRule = None,
                          pg_groupLimit = None \<rparr>],
         pt_columns = None,
         pt_values = [\<lparr> pv_summarizeFunction = Fn_SUM, pv_sourceColumnOffset = Some 4,
                        pv_formula = None, pv_name = None, pv_calculatedDisplayType = None \<rparr>],
         pt_valueLayout = HORIZONTAL,
         pt_filterSpecs = None \<rparr>"
  by (simp add: compilePivotTable_def salesSpec_def buildPivotGroup_def buildPivotValue_def
      Let_def truthyString_def truthyNumber_def nonEmptyOrUndefined_def columnLetterToIndex_A_E)

section \<open>Column addresses: claims\<close>

text \<open>
  C4. For every string of letters A to Z, in either case, \<open>columnLetterToIndex\<close> is the
  specification's fold: upper-case, fold from the left with
  \<open>index * 26 + (charCode - 'A' + 1)\<close>, subtract one. The lower-case form of the input
  gives what the upper-case form gives, and \<open>A\<close>, \<open>Z\<close>, \<open>AA\<close>, \<open>AZ\<close> give
  \<open>0\<close>, \<open>25\<close>, \<open>26\<close>, \<open>51\<close>.
\<close>

theorem columnLetterToIndex_fold:
  assumes "list_all isLetter letters"
  shows "columnLetterToIndex letters = toIndex_spec letters \<and>
         columnLetterToIndex (toLowerCase letters) = columnLetterToIndex (toUpperCase letters) \<and>
         columnLetterToIndex letters = columnLetterToIndex (toUpperCase letters) \<and>
         columnLetterToIndex ''A'' = 0 \<and> columnLetterToIndex ''Z'' = 25 \<and>
         columnLetterToIndex ''AA'' = 26 \<and> columnLetterToIndex ''AZ'' = 51"
proof -
  from assms have "map upperChar (map lowerChar letters) = map upperChar (map upperChar letters)"
    by (induction letters) (simp_all add: upperChar_lowerChar upperChar_idem)
  then have low: "columnLetterToIndex (toLowerCase letters) = columnLetterToIndex (toUpperCase letters)"
    by (intro columnLetterToIndex_cong) (simp add: toUpperCase_def toLowerCase_def)
  have up: "columnLetterToIndex letters = columnLetterToIndex (toUpperCase letters)"
    by (intro columnLetterToIndex_cong) (simp add: toUpperCase_def upperChar_idem)
  have ex: "columnLetterToIndex ''A'' = 0" "columnLetterToIndex ''Z'' = 25"
    "columnLetterToIndex ''AA'' = 26" "columnLetterToIndex ''AZ'' = 51"
    by code_simp+
  from low up ex show ?thesis by (simp add: columnLetterToIndex_toIndex_spec)
qed

text \<open>The theorem at the lower-case input \<open>az\<close>.\<close>

theorem columnLetterToIndex_fold_witness:
  "list_all isLetter ''az'' \<and> columnLetterToIndex ''az'' = toIndex_spec ''az'' \<and>
   columnLetterToIndex (toLowerCase ''az'') = columnLetterToIndex (toUpperCase ''az'') \<and>
   columnLetterToIndex ''az'' = columnLetterToIndex (toUpperCase ''az'') \<and>
   columnLetterToIndex ''az'' = 51"
proof -
  have h: "list_all isLetter ''az''" by code_simp
  have v: "columnLetterToIndex ''az'' = 51" by code_simp
  from columnLetterToIndex_fold [OF h] h v show ?thesis by blast
qed

text \<open>
  C5, as stated, fails: \<open>columnLetterToIndex\<close> has no check and no throw. For the empty
  string the loop does not run and the result is \<open>-1\<close>; for \<open>"1"\<close>, a character outside
  A to Z, the result is \<open>49 - 64 - 1\<close>.
\<close>

theorem columnLetterToIndex_no_validation:
  "columnLetterToIndex [] = - 1 \<and> columnLetterToIndex ''1'' = - 16"
  by code_simp

text \<open>
  C5, amended. \<open>columnLetterToIndex\<close> itself does not fail: on a string that is empty or
  has a character outside A to Z it still returns the number of the fold. Such strings
  are stopped before they reach it: \<open>ColumnRefSchema\<close> refuses them as a column
  reference, and the pattern of the range parser never captures one as the letters of
  a reference.
\<close>

theorem columnLetterToIndex_guarded_upstream:
  assumes "s = [] \<or> \<not> list_all isLetter s"
  shows "columnLetterToIndex s = toIndex_spec s \<and>
         \<not> ColumnRefSchema (ColLetters s) \<and>
         (\<forall>ref digits. refMatch ref \<noteq> Some (s, digits))"
  using assms by (auto simp: columnLetterToIndex_toIndex_spec refMatch_Some_iff)

text \<open>The theorem at \<open>A1\<close>, which has a digit.\<close>

theorem columnLetterToIndex_guarded_upstream_witness:
  "\<not> list_all isLetter ''A1'' \<and> columnLetterToIndex ''A1'' = toIndex_spec ''A1'' \<and>
   \<not> ColumnRefSchema (ColLetters ''A1'') \<and>
   (\<forall>ref digits. refMatch ref \<noteq> Some (''A1'', digits))"
proof -
  have h: "\<not> list_all isLetter ''A1''" by code_simp
  then have "''A1'' = [] \<or> \<not> list_all isLetter ''A1''" by (rule disjI2)
  from columnLetterToIndex_guarded_upstream [OF this] h show ?thesis by blast
qed

section \<open>Range parsing: claims\<close>

text \<open>
  C6. A pure column range, with no row digits, parses to start row \<open>0\<close> and the
  sentinel end row \<open>1000\<close>, with the end column made exclusive: for letters on both
  sides of the colon and for a single column, with or without a sheet name in front
  (whose quotes are stripped); in particular \<open>parseA1Range "A:E"\<close> is
  \<open>{sheetName: "", startCol: 0, startRow: 0, endCol: 5, endRow: 1000}\<close>.
\<close>

theorem parseA1Range_columns_only:
  assumes "a \<noteq> []" "list_all isLetter a" "b \<noteq> []" "list_all isLetter b"
    and "CHR ''!'' \<notin> set sheet"
  shows "parseA1Range (a @ '':'' @ b) =
           Inr \<lparr> r_sheetName = [], r_startCol = columnLetterToIndex a, r_startRow = 0,
                 r_endCol = columnLetterToIndex b + 1, r_endRow = 1000 \<rparr> \<and>
         parseA1Range a =
           Inr \<lparr> r_sheetName = [], r_startCol = columnLetterToIndex a, r_startRow = 0,
                 r_endCol = columnLetterToIndex a + 1, r_endRow = 1000 \<rparr> \<and>
         parseA1Range (sheet @ ''!'' @ a @ '':'' @ b) =
           Inr \<lparr> r_sheetName = stripQuotes sheet, r_startCol = columnLetterToIndex a,
                 r_startRow = 0, r_endCol = columnLetterToIndex b + 1, r_endRow = 1000 \<rparr> \<and>
         parseA1Range (sheet @ ''!'' @ a) =
           Inr \<lparr> r_sheetName = stripQuotes sheet, r_startCol = columnLetterToIndex a,
                 r_startRow = 0, r_endCol = columnLetterToIndex a + 1, r_endRow = 1000 \<rparr> \<and>
         parseA1Range ''A:E'' =
           Inr \<lparr> r_sheetName = [], r_startCol = 0, r_startRow = 0, r_endCol = 5,
                 r_endRow = 1000 \<rparr>"
proof -
  let ?ab = "a @ CHR '':'' # b"
  from assms have na: "CHR ''!'' \<notin> set a" "CHR '':'' \<notin> set a"
    and nb: "CHR ''!'' \<notin> set b" "CHR '':'' \<notin> set b"
    by (auto simp: list_all_iff dest: letter_not_separator)
  from na nb have nab: "CHR ''!'' \<notin> set ?ab" by simp
  \<comment> \<open>the references of the two cell-range portions\<close>
  have sa: "textBefore CHR '':'' ?ab = a" and ea: "textAfter CHR '':'' ?ab = b"
    using na by (simp_all add: textBefore_append textAfter_append)
  have sb: "textBefore CHR '':'' a = a" "textBefore CHR '':'' b = b"
    and eb: "textAfter CHR '':'' a = []"
    using na nb by (simp_all add: textBefore_absent textAfter_absent)
  \<comment> \<open>no sheet name\<close>
  have c1: "taken_cellRange ?ab = ?ab" "taken_cellRange a = a"
    using nab na by (simp_all add: taken_cellRange_def)
  have n1: "range_sheetName ?ab = []" "range_sheetName a = []"
    using nab na by (simp_all add: range_sheetName_text)
  \<comment> \<open>with a sheet name\<close>
  have c2: "taken_cellRange (sheet @ CHR ''!'' # ?ab) = ?ab"
    "taken_cellRange (sheet @ CHR ''!'' # a) = a"
    using assms(5) nab na
    by (simp_all add: taken_cellRange_def textAfter_append textBefore_absent)
  have n2: "range_sheetName (sheet @ CHR ''!'' # ?ab) = stripQuotes sheet"
    "range_sheetName (sheet @ CHR ''!'' # a) = stripQuotes sheet"
    using assms(5) by (simp_all add: range_sheetName_text textBefore_append)
  have r1: "range_startRef ?ab = a" "range_endRef ?ab = b"
    using assms(3) by (simp_all add: range_startRef_taken range_endRef_taken taken_startRef_def
        taken_endRef_def c1 sa ea sb Let_def)
  have r2: "range_startRef a = a" "range_endRef a = a"
    by (simp_all add: range_startRef_taken range_endRef_taken taken_startRef_def
        taken_endRef_def c1 sb eb textBefore_absent Let_def)
  have r3: "range_startRef (sheet @ CHR ''!'' # ?ab) = a" "range_endRef (sheet @ CHR ''!'' # ?ab) = b"
    using assms(3) by (simp_all add: range_startRef_taken range_endRef_taken taken_startRef_def
        taken_endRef_def c2 sa ea sb Let_def)
  have r4: "range_startRef (sheet @ CHR ''!'' # a) = a" "range_endRef (sheet @ CHR ''!'' # a) = a"
    by (simp_all add: range_startRef_taken range_endRef_taken taken_startRef_def
        taken_endRef_def c2 sb eb textBefore_absent Let_def)
  note p = parseA1Range_letters_only
  have g1: "parseA1Range ?ab =
           Inr \<lparr> r_sheetName = [], r_startCol = columnLetterToIndex a, r_startRow = 0,
                 r_endCol = columnLetterToIndex b + 1, r_endRow = 1000 \<rparr>"
    by (rule p [OF n1(1) r1 assms(1-4)])
  have g2: "parseA1Range a =
           Inr \<lparr> r_sheetName = [], r_startCol = columnLetterToIndex a, r_startRow = 0,
                 r_endCol = columnLetterToIndex a + 1, r_endRow = 1000 \<rparr>"
    by (rule p [OF n1(2) r2 assms(1,2) assms(1,2)])
  have g3: "parseA1Range (sheet @ CHR ''!'' # ?ab) =
           Inr \<lparr> r_sheetName = stripQuotes sheet, r_startCol = columnLetterToIndex a,
                 r_startRow = 0, r_endCol = columnLetterToIndex b + 1, r_endRow = 1000 \<rparr>"
    by (rule p [OF n2(1) r3 assms(1-4)])
  have g4: "parseA1Range (sheet @ CHR ''!'' # a) =
           Inr \<lparr> r_sheetName = stripQuotes sheet, r_startCol = columnLetterToIndex a,
                 r_startRow = 0, r_endCol = columnLetterToIndex a + 1, r_endRow = 1000 \<rparr>"
    by (rule p [OF n2(2) r4 assms(1,2) assms(1,2)])
  have c: "parseA1Range ''A:E'' =
           Inr \<lparr> r_sheetName = [], r_startCol = 0, r_startRow = 0, r_endCol = 5,
                 r_endRow = 1000 \<rparr>"
    by code_simp
  from g1 g2 g3 g4 c show ?thesis by simp
qed

text \<open>
  The theorem at \<open>b:AA\<close> and \<open>b\<close>, without a sheet name and behind the quoted sheet
  name \<open>'My Data'\<close>.
\<close>

theorem parseA1Range_columns_only_witness:
  "parseA1Range ''b:AA'' =
     Inr \<lparr> r_sheetName = [], r_startCol = 1, r_startRow = 0, r_endCol = 27, r_endRow = 1000 \<rparr> \<and>
   parseA1Range ''b'' =
     Inr \<lparr> r_sheetName = [], r_startCol = 1, r_startRow = 0, r_endCol = 2, r_endRow = 1000 \<rparr> \<and>
   parseA1Range (CHR 0x27 # ''My Data'' @ CHR 0x27 # ''!b:AA'') =
     Inr \<lparr> r_sheetName = ''My Data'', r_startCol = 1, r_startRow = 0, r_endCol = 27,
           r_endRow = 1000 \<rparr> \<and>
   parseA1Range (CHR 0x27 # ''My Data'' @ CHR 0x27 # ''!b'') =
     Inr \<lparr> r_sheetName = ''My Data'', r_startCol = 1, r_startRow = 0, r_endCol = 2,
           r_endRow = 1000 \<rparr>"
proof -
  let ?sheet = "CHR 0x27 # ''My Data'' @ [CHR 0x27]"
  have h: "''b'' \<noteq> []" "list_all isLetter ''b''" "''AA'' \<noteq> []" "list_all isLetter ''AA''"
    "CHR ''!'' \<notin> set ?sheet"
    by code_simp+
  have v: "columnLetterToIndex ''b'' = 1" "columnLetterToIndex ''AA'' = 26"
    "stripQuotes ?sheet = ''My Data''"
    by code_simp+
  from parseA1Range_columns_only [OF h] show ?thesis by (simp add: v(1,2) v(3) [simplified])
qed




section \<open>Sheet resolution: claims\<close>

text \<open>
  C3, as stated, fails: for an empty sheet name and a spreadsheet with no sheets, the
  handler does not fail with \<open>NotFound\<close>; it falls back to the identifier \<open>0\<close>.
\<close>

theorem resolveSourceSheetId_empty_spreadsheet:
  "resolveSourceSheetId (fakeService [] :: unit Service) ''S'' [] [] = (Inr 0, [GetSpreadsheet ''S''])"
  by code_simp

text \<open>
  C3, amended. When the metadata request succeeds: for a non-empty sheet name,
  resolution fails with \<open>NotFound\<close> when no sheet has that title, and returns the
  identifier of the first sheet with that title when that identifier is not \<open>0\<close>; for
  an empty sheet name it never fails, and returns the first sheet's identifier, or \<open>0\<close>
  when the spreadsheet has no sheets or the first sheet has no identifier.
\<close>

theorem resolveSourceSheetId_cases:
  assumes "sv_get sv spreadsheetId = Inr sheets"
  shows "(sheetName \<noteq> [] \<and> (\<forall>s\<in>set (sheetsOrEmpty sheets). sheet_title s \<noteq> Some sheetName) \<longrightarrow>
            fst (resolveSourceSheetId sv spreadsheetId sheetName log) = Inl (NotFound sheetName)) \<and>
         (\<forall>s i. sheetName \<noteq> [] \<and>
            find (\<lambda>s. sheet_title s = Some sheetName) (sheetsOrEmpty sheets) = Some s \<and>
            sheet_sheetId s = Some i \<and> i \<noteq> 0 \<longrightarrow>
            fst (resolveSourceSheetId sv spreadsheetId sheetName log) = Inr i) \<and>
         fst (resolveSourceSheetId sv spreadsheetId [] log) =
           Inr (case sheetsOrEmpty sheets of
                  [] \<Rightarrow> 0
                | s # _ \<Rightarrow> (case sheet_sheetId s of None \<Rightarrow> 0 | Some i \<Rightarrow> i))"
proof (intro conjI allI impI)
  assume a: "sheetName \<noteq> [] \<and> (\<forall>s\<in>set (sheetsOrEmpty sheets). sheet_title s \<noteq> Some sheetName)"
  then have "find (\<lambda>s. sheet_title s = Some sheetName) (sheetsOrEmpty sheets) = None"
    by (simp add: find_None_titles)
  with a assms show "fst (resolveSourceSheetId sv spreadsheetId sheetName log) = Inl (NotFound sheetName)"
    by (simp add: resolveSourceSheetId_def getSheetIdByName_def findSheetId_def Let_def)
next
  fix s i
  assume "sheetName \<noteq> [] \<and>
            find (\<lambda>s. sheet_title s = Some sheetName) (sheetsOrEmpty sheets) = Some s \<and>
            sheet_sheetId s = Some i \<and> i \<noteq> 0"
  with assms show "fst (resolveSourceSheetId sv spreadsheetId sheetName log) = Inr i"
    by (simp add: resolveSourceSheetId_def getSheetIdByName_def findSheetId_def Let_def)
next
  from assms show "fst (resolveSourceSheetId sv spreadsheetId [] log) =
           Inr (case sheetsOrEmpty sheets of
                  [] \<Rightarrow> 0
                | s # _ \<Rightarrow> (case sheet_sheetId s of None \<Rightarrow> 0 | Some i \<Rightarrow> i))"
    by (simp add: resolveSourceSheetId_def firstSheetId_def Let_def)
qed

text \<open>The theorem at a spreadsheet with the sheets \<open>Sheet1\<close> (5) and \<open>Sales\<close> (3).\<close>

theorem resolveSourceSheetId_cases_witness:
  "fst (resolveSourceSheetId (fakeService [sheetNamed ''Sheet1'' 5, sheetNamed ''Sales'' 3] :: unit Service)
          ''S'' ''Nope'' []) = Inl (NotFound ''Nope'') \<and>
   fst (resolveSourceSheetId (fakeService [sheetNamed ''Sheet1'' 5, sheetNamed ''Sales'' 3] :: unit Service)
          ''S'' ''Sales'' []) = Inr 3 \<and>
   fst (resolveSourceSheetId (fakeService [sheetNamed ''Sheet1'' 5, sheetNamed ''Sales'' 3] :: unit Service)
          ''S'' [] []) = Inr 5"
proof -
  let ?ss = "[sheetNamed ''Sheet1'' 5, sheetNamed ''Sales'' 3]"
  let ?sv = "fakeService ?ss :: unit Service"
  have g: "sv_get ?sv ''S'' = Inr (Some ?ss)" by (simp add: fakeService_def)
  have s: "sheetsOrEmpty (Some ?ss) = ?ss" by (simp add: sheetsOrEmpty_def)
  have t: "sheet_title (sheetNamed ''Sheet1'' 5) = Some ''Sheet1''"
    "sheet_title (sheetNamed ''Sales'' 3) = Some ''Sales''"
    "sheet_sheetId (sheetNamed ''Sales'' 3) = Some 3"
    "sheet_sheetId (sheetNamed ''Sheet1'' 5) = Some 5"
    by (simp_all add: sheet_title_def sheet_sheetId_def sheetNamed_def)
  note th = resolveSourceSheetId_cases [OF g]
  have h1: "''Nope'' \<noteq> [] \<and> (\<forall>s\<in>set (sheetsOrEmpty (Some ?ss)). sheet_title s \<noteq> Some ''Nope'')"
    by (simp add: s t)
  have c1: "fst (resolveSourceSheetId ?sv ''S'' ''Nope'' []) = Inl (NotFound ''Nope'')"
    using th [of "''Nope''" "[]"] h1 by blast
  have h2: "''Sales'' \<noteq> [] \<and>
            find (\<lambda>s. sheet_title s = Some ''Sales'') (sheetsOrEmpty (Some ?ss)) = Some (sheetNamed ''Sales'' 3) \<and>
            sheet_sheetId (sheetNamed ''Sales'' 3) = Some 3 \<and> (3::int) \<noteq> 0"
    by (simp add: s t)
  have c2: "fst (resolveSourceSheetId ?sv ''S'' ''Sales'' []) = Inr 3"
    using th [of "''Sales''" "[]"] h2 by blast
  have c3: "fst (resolveSourceSheetId ?sv ''S'' [] []) = Inr 5"
    using th [of "[]" "[]"] by (simp add: s t)
  from c1 c2 c3 show ?thesis by blast
qed

section \<open>The compilers: claims\<close>

text \<open>
  C2, as stated, fails: \<open>buildPivotValue\<close> has no throw. With both a source column and
  a formula it returns a value with the column's offset and no formula; with neither it
  returns a value with neither.
\<close>

theorem buildPivotValue_no_revalidation:
  "buildPivotValue
     \<lparr> v_source_column = Some (ColLetters ''E''), v_formula = Some ''=A/B'',
       v_summarize_function = Fn_SUM, v_name = None, v_calculated_display_type = None \<rparr> =
     \<lparr> pv_summarizeFunction = Fn_SUM, pv_sourceColumnOffset = Some 4, pv_formula = None,
       pv_name = None, pv_calculatedDisplayType = None \<rparr> \<and>
   buildPivotValue
     \<lparr> v_source_column = None, v_formula = None,
       v_summarize_function = Fn_SUM, v_name = None, v_calculated_display_type = None \<rparr> =
     \<lparr> pv_summarizeFunction = Fn_SUM, pv_sourceColumnOffset = None, pv_formula = None,
       pv_name = None, pv_calculatedDisplayType = None \<rparr>"
  by code_simp

text \<open>
  C2, amended. The value compiler never fails and does not check the exactly-one-of
  invariant again: with both present it emits the resolved offset of the source column
  and drops the formula, with neither present it emits neither. The invariant is
  enforced before the handler by the refinements of \<open>PivotValueSchema\<close>, which hold
  exactly when one of the two is present, and so refuse both cases.
\<close>

theorem buildPivotValue_source_column_wins:
  "(\<forall>column f. v_source_column val = Some column \<and> v_formula val = Some f \<longrightarrow>
      \<not> PivotValueSchema_refine val \<and>
      pv_sourceColumnOffset (buildPivotValue val) = Some (resolveColumnIndex column) \<and>
      pv_formula (buildPivotValue val) = None) \<and>
   (v_source_column val = None \<and> v_formula val = None \<longrightarrow>
      \<not> PivotValueSchema_refine val \<and>
      pv_sourceColumnOffset (buildPivotValue val) = None \<and>
      pv_formula (buildPivotValue val) = None) \<and>
   (PivotValueSchema_refine val \<longleftrightarrow> (v_source_column val = None) \<noteq> (v_formula val = None))"
proof -
  have r: "PivotValueSchema_refine val \<longleftrightarrow> (v_source_column val = None) \<noteq> (v_formula val = None)"
    by (auto simp: PivotValueSchema_refine_def)
  show ?thesis
    by (simp add: r buildPivotValue_fields truthyString_def)
qed

text \<open>The theorem at a value with both, and at a value with neither.\<close>

theorem buildPivotValue_source_column_wins_witness:
  "(let val = \<lparr> v_source_column = Some (ColLetters ''E''), v_formula = Some ''=A/B'',
          v_summarize_function = Fn_SUM, v_name = None, v_calculated_display_type = None \<rparr>
    in \<not> PivotValueSchema_refine val \<and>
       pv_sourceColumnOffset (buildPivotValue val) = Some 4 \<and>
       pv_formula (buildPivotValue val) = None) \<and>
   (let val = \<lparr> v_source_column = None, v_formula = None,
          v_summarize_function = Fn_SUM, v_name = None, v_calculated_display_type = None \<rparr>
    in \<not> PivotValueSchema_refine val \<and>
       pv_sourceColumnOffset (buildPivotValue val) = None \<and>
       pv_formula (buildPivotValue val) = None)"
proof -
  have e: "columnLetterToIndex ''E'' = 4" by code_simp
  show ?thesis
    using buildPivotValue_source_column_wins
        [of "\<lparr> v_source_column = Some (ColLetters ''E''), v_formula = Some ''=A/B'',
          v_summarize_function = Fn_SUM, v_name = None, v_calculated_display_type = None \<rparr>"]
      buildPivotValue_source_column_wins
        [of "\<lparr> v_source_column = None, v_formula = None,
          v_summarize_function = Fn_SUM, v_name = None, v_calculated_display_type = None \<rparr>"]
    unfolding Let_def by (simp add: e)
qed

text \<open>
  C8. A group whose group rule, when present, carries one of the three tags compiles,
  and the compiled group follows the sort precedence: with \<open>sort_by_value\<close> set, a
  value bucket that refers to its index, and the sort order as given; else with a sort
  order alone, an empty value bucket and that sort order; with neither, no value bucket.
\<close>

theorem buildPivotGroup_sort_precedence:
  assumes "\<forall>r. g_group_rule grp = Some r \<longrightarrow>
             gr_date_time r \<noteq> None \<or> gr_histogram r \<noteq> None \<or> gr_manual r \<noteq> None"
  shows "\<exists>pg. buildPivotGroup grp = Inr pg \<and>
           (\<forall>sbv. g_sort_by_value grp = Some sbv \<longrightarrow>
              pg_valueBucket pg = Some \<lparr> vb_valuesIndex = Some (sbv_value_index sbv) \<rparr> \<and>
              pg_sortOrder pg = g_sort_order grp) \<and>
           (\<forall>ord. g_sort_by_value grp = None \<and> g_sort_order grp = Some ord \<longrightarrow>
              pg_valueBucket pg = Some \<lparr> vb_valuesIndex = None \<rparr> \<and>
              pg_sortOrder pg = Some ord) \<and>
           (g_sort_by_value grp = None \<and> g_sort_order grp = None \<longrightarrow>
              pg_valueBucket pg = None \<and> pg_sortOrder pg = None)"
proof -
  from buildPivotGroup_cases [of grp] show ?thesis
  proof (elim disjE exE conjE)
    fix r
    assume r: "g_group_rule grp = Some r" and f: "buildGroupRule r = Inl InvalidSpec"
    from assms r have "gr_date_time r \<noteq> None \<or> gr_histogram r \<noteq> None \<or> gr_manual r \<noteq> None"
      by blast
    from buildGroupRule_tagged [OF this] f show ?thesis by simp
  next
    fix pg
    assume "buildPivotGroup grp = Inr pg"
      and "pg_sortOrder pg = g_sort_order grp"
      and "pg_valueBucket pg =
        (case g_sort_by_value grp of
           Some sbv \<Rightarrow> Some \<lparr> vb_valuesIndex = Some (sbv_value_index sbv) \<rparr>
         | None \<Rightarrow> if g_sort_order grp \<noteq> None then Some \<lparr> vb_valuesIndex = None \<rparr> else None)"
    then show ?thesis by simp
  qed
qed

text \<open>
  The theorem at one group for each of the three cases; the first has a group rule, by
  month.
\<close>

theorem buildPivotGroup_sort_precedence_witness:
  "(\<exists>pg. buildPivotGroup
       \<lparr> g_source_column = ColLetters ''A'', g_label = None, g_show_totals = True,
         g_sort_order = Some DESCENDING, g_sort_by_value = Some \<lparr> sbv_value_index = 0 \<rparr>,
         g_group_rule = Some \<lparr> gr_date_time = Some \<lparr> dt_type = MONTH \<rparr>,
           gr_histogram = (None :: int HistogramRuleInput option), gr_manual = None \<rparr>,
         g_group_limit = None \<rparr> = Inr pg \<and>
       pg_valueBucket pg = Some \<lparr> vb_valuesIndex = Some 0 \<rparr> \<and>
       pg_sortOrder pg = Some DESCENDING) \<and>
   (\<exists>pg. buildPivotGroup
       \<lparr> g_source_column = ColLetters ''A'', g_label = None, g_show_totals = True,
         g_sort_order = Some DESCENDING, g_sort_by_value = None,
         g_group_rule = (None :: int GroupRuleInput option), g_group_limit = None \<rparr> = Inr pg \<and>
       pg_valueBucket pg = Some \<lparr> vb_valuesIndex = None \<rparr> \<and>
       pg_sortOrder pg = Some DESCENDING) \<and>
   (\<exists>pg. buildPivotGroup
       \<lparr> g_source_column = ColLetters ''A'', g_label = None, g_show_totals = True,
         g_sort_order = None, g_sort_by_value = None,
         g_group_rule = (None :: int GroupRuleInput option), g_group_limit = None \<rparr> = Inr pg \<and>
       pg_valueBucket pg = None \<and> pg_sortOrder pg = None)"
  using
    buildPivotGroup_sort_precedence
      [of "\<lparr> g_source_column = ColLetters ''A'', g_label = None, g_show_totals = True,
         g_sort_order = Some DESCENDING, g_sort_by_value = Some \<lparr> sbv_value_index = 0 \<rparr>,
         g_group_rule = Some \<lparr> gr_date_time = Some \<lparr> dt_type = MONTH \<rparr>,
           gr_histogram = (None :: int HistogramRuleInput option), gr_manual = None \<rparr>,
         g_group_limit = None \<rparr>"]
    buildPivotGroup_sort_precedence
      [of "\<lparr> g_source_column = ColLetters ''A'', g_label = None, g_show_totals = True,
         g_sort_order = Some DESCENDING, g_sort_by_value = None,
         g_group_rule = (None :: int GroupRuleInput option), g_group_limit = None \<rparr>"]
    buildPivotGroup_sort_precedence
      [of "\<lparr> g_source_column = ColLetters ''A'', g_label = None, g_show_totals = True,
         g_sort_order = None, g_sort_by_value = None,
         g_group_rule = (None :: int GroupRuleInput option), g_group_limit = None \<rparr>"]
  by simp

text \<open>
  C10. \<open>buildPivotFilters\<close> gives one filter spec for each filter, and never fails.
  Every spec has a \<open>filterCriteria\<close> object; for a filter with both
  \<open>visible_values\<close> and \<open>condition\<close> it holds the visible values only, and for a
  filter with neither it is empty.
\<close>

theorem buildPivotFilters_defaulting:
  "length (buildPivotFilters num fs) = length fs \<and>
   (\<forall>i < length fs.
      fs_filterCriteria (buildPivotFilters num fs ! i) \<noteq> None \<and>
      (\<forall>vs c. f_visible_values (fs ! i) = Some vs \<and> f_condition (fs ! i) = Some c \<longrightarrow>
         fs_filterCriteria (buildPivotFilters num fs ! i) =
           Some \<lparr> fcr_visibleValues = Some vs, fcr_condition = None \<rparr>) \<and>
      (f_visible_values (fs ! i) = None \<and> f_condition (fs ! i) = None \<longrightarrow>
         fs_filterCriteria (buildPivotFilters num fs ! i) =
           Some \<lparr> fcr_visibleValues = None, fcr_condition = None \<rparr>))"
  by (simp add: buildPivotFilters_def buildPivotFilter_criteria split: option.splits)

text \<open>The theorem at a list of two filters, the first with both and the second with neither.\<close>

theorem buildPivotFilters_defaulting_witness:
  "fs_filterCriteria (buildPivotFilters (\<lambda>n :: unit. [])
      [\<lparr> f_source_column = ColLetters ''B'', f_visible_values = Some [''Active''],
         f_condition = Some \<lparr> fc_type = TEXT_EQ, fc_values = Some [StringItem ''x''] \<rparr> \<rparr>,
       \<lparr> f_source_column = ColNumber 2, f_visible_values = None, f_condition = None \<rparr>] ! 0) =
     Some \<lparr> fcr_visibleValues = Some [''Active''], fcr_condition = None \<rparr> \<and>
   fs_filterCriteria (buildPivotFilters (\<lambda>n :: unit. [])
      [\<lparr> f_source_column = ColLetters ''B'', f_visible_values = Some [''Active''],
         f_condition = Some \<lparr> fc_type = TEXT_EQ, fc_values = Some [StringItem ''x''] \<rparr> \<rparr>,
       \<lparr> f_source_column = ColNumber 2, f_visible_values = None, f_condition = None \<rparr>] ! 1) =
     Some \<lparr> fcr_visibleValues = None, fcr_condition = None \<rparr>"
proof -
  let ?fs = "[\<lparr> f_source_column = ColLetters ''B'', f_visible_values = Some [''Active''],
         f_condition = Some \<lparr> fc_type = TEXT_EQ, fc_values = Some [StringItem ''x''] \<rparr> \<rparr>,
       \<lparr> f_source_column = ColNumber 2, f_visible_values = None, f_condition = None \<rparr>]
       :: unit PivotFilterInput list"
  note th = buildPivotFilters_defaulting [of "\<lambda>n :: unit. []" ?fs]
  from th have a0: "\<forall>vs c. f_visible_values (?fs ! 0) = Some vs \<and> f_condition (?fs ! 0) = Some c \<longrightarrow>
         fs_filterCriteria (buildPivotFilters (\<lambda>n :: unit. []) ?fs ! 0) =
           Some \<lparr> fcr_visibleValues = Some vs, fcr_condition = None \<rparr>"
    by simp
  from th have a1: "f_visible_values (?fs ! 1) = None \<and> f_condition (?fs ! 1) = None \<longrightarrow>
         fs_filterCriteria (buildPivotFilters (\<lambda>n :: unit. []) ?fs ! 1) =
           Some \<lparr> fcr_visibleValues = None, fcr_condition = None \<rparr>"
    by simp
  from a0 a1 show ?thesis by simp
qed

section \<open>The handler: claims\<close>

text \<open>
  C9. When the range does not parse, or the source sheet is not resolved, the handler
  answers with the error and the requests it has sent contain no \<open>batchUpdate\<close>: no
  sheet was added and no cells were updated.
\<close>

theorem validation_failure_sends_no_mutation:
  assumes "(\<exists>e. parseA1Range (p_source_range params) = Inl e) \<or>
           (\<exists>parsedRange e. parseA1Range (p_source_range params) = Inr parsedRange \<and>
              fst (resolveSourceSheetId sv (p_spreadsheet_id params) (r_sheetName parsedRange) []) = Inl e)"
  shows "(\<exists>e. fst (sheets_create_pivot_table num sv params) = Inl e) \<and>
         filter mutating (snd (sheets_create_pivot_table num sv params)) = []"
proof (cases "sv_getSheetsClient sv")
  case (Some e)
  then show ?thesis by (simp add: sheets_create_pivot_table_def)
next
  case None
  from assms show ?thesis
  proof (elim disjE exE conjE)
    fix e assume "parseA1Range (p_source_range params) = Inl e"
    with None show ?thesis by (simp add: sheets_create_pivot_table_def)
  next
    fix parsedRange e
    assume p: "parseA1Range (p_source_range params) = Inr parsedRange"
      and r: "fst (resolveSourceSheetId sv (p_spreadsheet_id params) (r_sheetName parsedRange) []) = Inl e"
    have l: "snd (resolveSourceSheetId sv (p_spreadsheet_id params) (r_sheetName parsedRange) []) =
               [GetSpreadsheet (p_spreadsheet_id params)]"
      by (simp add: resolveSourceSheetId_log)
    from r l have "resolveSourceSheetId sv (p_spreadsheet_id params) (r_sheetName parsedRange) [] =
               (Inl e, [GetSpreadsheet (p_spreadsheet_id params)])"
      by (metis prod.collapse)
    with None p show ?thesis by (simp add: sheets_create_pivot_table_def)
  qed
qed

text \<open>The theorem at a range that does not parse, and at a sheet name that is not found.\<close>

theorem validation_failure_sends_no_mutation_witness:
  "parseA1Range (p_source_range ((salesSpec ''S'' None :: unit CreatePivotTableInput)
      \<lparr> p_source_range := ''1A:E'' \<rparr>)) = Inl (InvalidFormat ''1A:E'') \<and>
   filter mutating (snd (sheets_create_pivot_table (\<lambda>n. []) (fakeService [sheetNamed ''Sales'' 3])
      ((salesSpec ''S'' None :: unit CreatePivotTableInput) \<lparr> p_source_range := ''1A:E'' \<rparr>))) = [] \<and>
   fst (resolveSourceSheetId (fakeService [sheetNamed ''Sales'' 3] :: unit Service) ''S'' ''Nope'' []) =
      Inl (NotFound ''Nope'') \<and>
   filter mutating (snd (sheets_create_pivot_table (\<lambda>n. []) (fakeService [sheetNamed ''Sales'' 3])
      ((salesSpec ''S'' None :: unit CreatePivotTableInput) \<lparr> p_source_range := ''Nope!A:E'' \<rparr>))) = []"
proof -
  let ?sv = "fakeService [sheetNamed ''Sales'' 3] :: unit Service"
  let ?p1 = "(salesSpec ''S'' None :: unit CreatePivotTableInput) \<lparr> p_source_range := ''1A:E'' \<rparr>"
  let ?p2 = "(salesSpec ''S'' None :: unit CreatePivotTableInput) \<lparr> p_source_range := ''Nope!A:E'' \<rparr>"
  have a1: "parseA1Range ''1A:E'' = Inl (InvalidFormat ''1A:E'')" by code_simp
  then have h1: "parseA1Range (p_source_range ?p1) = Inl (InvalidFormat ''1A:E'')" by simp
  then have "(\<exists>e. parseA1Range (p_source_range ?p1) = Inl e) \<or>
           (\<exists>parsedRange e. parseA1Range (p_source_range ?p1) = Inr parsedRange \<and>
              fst (resolveSourceSheetId ?sv (p_spreadsheet_id ?p1) (r_sheetName parsedRange) []) = Inl e)"
    by blast
  from validation_failure_sends_no_mutation [OF this]
  have c1: "filter mutating (snd (sheets_create_pivot_table (\<lambda>n. []) ?sv ?p1)) = []" by blast
  have a2: "parseA1Range ''Nope!A:E'' =
      Inr \<lparr> r_sheetName = ''Nope'', r_startCol = 0, r_startRow = 0, r_endCol = 5, r_endRow = 1000 \<rparr>"
    by code_simp
  have h2: "fst (resolveSourceSheetId ?sv ''S'' ''Nope'' []) = Inl (NotFound ''Nope'')"
    by code_simp
  have sid: "p_spreadsheet_id ?p2 = ''S''" by (simp add: salesSpec_def)
  from a2 h2 sid have "parseA1Range (p_source_range ?p2) =
      Inr \<lparr> r_sheetName = ''Nope'', r_startCol = 0, r_startRow = 0, r_endCol = 5, r_endRow = 1000 \<rparr> \<and>
      fst (resolveSourceSheetId ?sv (p_spreadsheet_id ?p2)
        (r_sheetName \<lparr> r_sheetName = ''Nope'', r_startCol = 0, r_startRow = 0, r_endCol = 5, r_endRow = 1000 \<rparr>) []) =
        Inl (NotFound ''Nope'')"
    by simp
  then have "(\<exists>e. parseA1Range (p_source_range ?p2) = Inl e) \<or>
           (\<exists>parsedRange e. parseA1Range (p_source_range ?p2) = Inr parsedRange \<and>
              fst (resolveSourceSheetId ?sv (p_spreadsheet_id ?p2) (r_sheetName parsedRange) []) = Inl e)"
    by blast
  from validation_failure_sends_no_mutation [OF this]
  have c2: "filter mutating (snd (sheets_create_pivot_table (\<lambda>n. []) ?sv ?p2)) = []" by blast
  from h1 c1 h2 c2 show ?thesis by blast
qed

text \<open>
  C1. For the example of the specification (source range \<open>Sales!A1:E100\<close>, one row
  group on column \<open>A\<close>, one value, the sum of column \<open>E\<close>) and a lookup that gives the
  sheet \<open>Sales\<close> the identifier \<open>3\<close>, the pivot table that the handler sends once the
  destination is known has the source region
  \<open>{sheetId: 3, startRowIndex: 0, startColumnIndex: 0, endRowIndex: 100, endColumnIndex: 5}\<close>
  and its first row group has \<open>sourceColumnOffset = 0\<close>.
\<close>

theorem sales_example_source_region:
  assumes "sv_getSheetsClient sv = None"
    and "sv_get sv spreadsheetId = Inr sheets"
    and "findSheetId sheets ''Sales'' = Inr 3"
    and "resolveDestination sv (salesSpec spreadsheetId destination) [GetSpreadsheet spreadsheetId] =
           (Inr (destinationSheetId, destinationSheetName), log)"
  shows "\<exists>pivotTable.
           snd (sheets_create_pivot_table num sv (salesSpec spreadsheetId destination)) =
             log @ [UpdateCells spreadsheetId destinationSheetId pivotTable] \<and>
           pt_source pivotTable =
             \<lparr> src_sheetId = 3, src_startRowIndex = 0, src_startColumnIndex = 0,
               src_endRowIndex = 100, src_endColumnIndex = 5 \<rparr> \<and>
           (\<exists>row rest. pt_rows pivotTable = Some (row # rest) \<and> pg_sourceColumnOffset row = 0)"
proof -
  have ids: "p_spreadsheet_id (salesSpec spreadsheetId destination) = spreadsheetId"
    "p_source_range (salesSpec spreadsheetId destination) = ''Sales!A1:E100''"
    by (simp_all add: salesSpec_def)
  from assms(2,3) have src: "resolveSourceSheetId sv spreadsheetId ''Sales'' [] =
      (Inr 3, [GetSpreadsheet spreadsheetId])"
    by (simp add: resolveSourceSheetId_def getSheetIdByName_def Let_def)
  show ?thesis
    using assms(1,4)
    by (simp add: sheets_create_pivot_table_def ids parseA1Range_sales src
        compilePivotTable_sales [of num spreadsheetId destination] Let_def split: option.splits)
qed

text \<open>The theorem at the stand-in service, with no destination given.\<close>

theorem sales_example_source_region_witness:
  "\<exists>pivotTable.
     snd (sheets_create_pivot_table (\<lambda>n. [])
            (fakeService [sheetNamed ''Sheet1'' 5, sheetNamed ''Sales'' 3] :: unit Service)
            (salesSpec ''S'' None)) =
       [GetSpreadsheet ''S'', AddSheet ''S'' ''Pivot Table''] @ [UpdateCells ''S'' 7 pivotTable] \<and>
     pt_source pivotTable =
       \<lparr> src_sheetId = 3, src_startRowIndex = 0, src_startColumnIndex = 0,
         src_endRowIndex = 100, src_endColumnIndex = 5 \<rparr> \<and>
     (\<exists>row rest. pt_rows pivotTable = Some (row # rest) \<and> pg_sourceColumnOffset row = 0)"
proof -
  let ?ss = "[sheetNamed ''Sheet1'' 5, sheetNamed ''Sales'' 3]"
  let ?sv = "fakeService ?ss :: unit Service"
  have h1: "sv_getSheetsClient ?sv = None" by (simp add: fakeService_def)
  have h2: "sv_get ?sv ''S'' = Inr (Some ?ss)" by (simp add: fakeService_def)
  have h3: "findSheetId (Some ?ss) ''Sales'' = Inr 3" by code_simp
  have h4: "resolveDestination ?sv (salesSpec ''S'' None) [GetSpreadsheet ''S''] =
           (Inr (7, ''Pivot Table''), [GetSpreadsheet ''S'', AddSheet ''S'' ''Pivot Table''])"
    by code_simp
  show ?thesis by (rule sales_example_source_region [OF h1 h2 h3 h4])
qed

end
